theory Spec2Isabelle
  imports Main "HOL-Library.Sublist"
begin

section \<open>The psql wrapper: username resolution and launching\<close>

text \<open>
  A shallow embedding of \<^verbatim>\<open>internal/wrapper.go\<close> (the version with the \<^verbatim>\<open>wrapper\<close>
  struct) and of \<^verbatim>\<open>cmd/psqlw/main.go\<close>. Go strings are byte sequences and are modelled
  as \<^typ>\<open>string\<close>. Everything the program obtains from the operating system or from the
  Go standard library beyond simple string functions is a field of the record
  \<open>platform\<close>, so every theorem holds for whatever these functions really do. Writing to
  the logger and starting a process are recorded as a list of events, in program order.
\<close>

subsection \<open>Errors, events and the platform\<close>

datatype go_error =
    UrlParseError string
  | ProviderUndefined
  | ProviderExited string string
  | ProviderInvokeFailed string
  | OsError string

text \<open>
  The outcome of \<^verbatim>\<open>cmd.Output()\<close> and of \<^verbatim>\<open>cmd.Run()\<close>, by the three branches of the
  type switches on the returned error: \<^verbatim>\<open>nil\<close>, \<^verbatim>\<open>*exec.ExitError\<close> and anything else.
  \<open>RunExitError\<close> carries the value of \<^verbatim>\<open>cmd.ProcessState.ExitCode()\<close>.
\<close>

datatype output_result = OutputNil string | OutputExitError string | OutputOtherError string

datatype run_result = RunNil | RunExitError int | RunOtherError string

datatype log_line =
    LogError go_error
  | CannotDetectUsername
  | TooManyPositional nat

datatype event =
    Log log_line
  | ProviderInvoked string string
  | TargetRun string "string list" "string list"

record platform =
  Environ :: "string list"
  Getenv :: "string \<Rightarrow> string"
  StatOk :: "string \<Rightarrow> bool"
  filepathDir :: "string \<Rightarrow> string"
  filepathJoin :: "string \<Rightarrow> string \<Rightarrow> string"
  urlParseUsername :: "string \<Rightarrow> string + string"
  TrimSpace :: "string \<Rightarrow> string"
  commandOutput :: "string \<Rightarrow> string \<Rightarrow> output_result"
  commandRun :: "string \<Rightarrow> string list \<Rightarrow> string list \<Rightarrow> run_result"

text \<open>
  \<open>urlParseUsername uri\<close> stands for \<^verbatim>\<open>url.Parse(uri)\<close> followed by
  \<^verbatim>\<open>u.User.Username()\<close>: \<open>Inl\<close> is the text of the parse error, \<open>Inr\<close> the username.
  \<open>StatOk p\<close> says that \<^verbatim>\<open>os.Stat(p)\<close> returns no error.
\<close>

record wrapper =
  name :: string
  path :: string

definition defaultPasswordProvider :: string where
  "defaultPasswordProvider = ''password_provider''"

subsection \<open>String functions of the standard library\<close>

definition HasPrefix :: "string \<Rightarrow> string \<Rightarrow> bool" where
  "HasPrefix s p = (take (length p) s = p)"

text \<open>\<^verbatim>\<open>strings.SplitN(s, "=", 2)\<close>: one element without \<^verbatim>\<open>=\<close>, else the parts around the first.\<close>

definition SplitN2 :: "string \<Rightarrow> string list" where
  "SplitN2 s =
     (if CHR ''='' \<in> set s
      then [takeWhile (\<lambda>c. c \<noteq> CHR ''='') s, tl (dropWhile (\<lambda>c. c \<noteq> CHR ''='') s)]
      else [s])"

text \<open>\<^verbatim>\<open>strings.TrimRight(s, "\n")\<close>\<close>

definition TrimRightNewline :: "string \<Rightarrow> string" where
  "TrimRightNewline s = rev (dropWhile (\<lambda>c. c = CHR 0x0A) (rev s))"

text \<open>The class \<^verbatim>\<open>\s\<close> of Go's regexp package: tab, newline, form feed, carriage return, space.\<close>

definition isReSpace :: "char \<Rightarrow> bool" where
  "isReSpace c = (c = CHR 0x09 \<or> c = CHR 0x0A \<or> c = CHR 0x0C \<or> c = CHR 0x0D \<or> c = CHR 0x20)"

text \<open>
  \<^verbatim>\<open>regexp.MustCompile(`\s+`).Split(s, -1)\<close>: the pieces of \<open>s\<close> between the maximal runs
  of whitespace, with an empty first or last piece where \<open>s\<close> starts or ends with a run,
  and \<^verbatim>\<open>[""]\<close> for the empty string.
\<close>

function reSplit :: "string \<Rightarrow> string list" where
  "reSplit s =
     (case dropWhile (\<lambda>c. \<not> isReSpace c) s of
        [] \<Rightarrow> [s]
      | _ # rest \<Rightarrow> takeWhile (\<lambda>c. \<not> isReSpace c) s # reSplit (dropWhile isReSpace rest))"
  by pat_completeness auto
termination
proof (relation "measure length")
  fix s :: string and c rest
  assume d: "dropWhile (\<lambda>c. \<not> isReSpace c) s = c # rest"
  have "length (dropWhile isReSpace rest) \<le> length rest"
    by (rule length_dropWhile_le)
  moreover have "length (c # rest) \<le> length s"
    unfolding d [symmetric] by (rule length_dropWhile_le)
  ultimately show "(dropWhile isReSpace rest, s) \<in> measure length"
    by simp
qed simp

subsection \<open>Option tables\<close>

definition shortOptionsHavingArg :: "char \<Rightarrow> bool" where
  "shortOptionsHavingArg c =
     (case map_of
        [(CHR ''c'', True), (CHR ''d'', True), (CHR ''f'', True), (CHR ''V'', True),
         (CHR ''?'', True), (CHR ''F'', True), (CHR ''R'', True), (CHR ''T'', True),
         (CHR ''h'', True), (CHR ''p'', True), (CHR ''U'', True)] c
      of Some b \<Rightarrow> b | None \<Rightarrow> False)"

definition longOptionsHavingArg :: "string \<Rightarrow> bool" where
  "longOptionsHavingArg n =
     (case map_of
        [(''command'', True), (''dbname'', True), (''file'', True), (''set'', True),
         (''variable'', True), (''help'', True), (''log-file'', True), (''output'', True),
         (''field-separator'', True), (''pset'', True), (''record-separator'', True),
         (''table-attr'', True), (''host'', True), (''port'', True), (''username'', True)] n
      of Some b \<Rightarrow> b | None \<Rightarrow> False)"

definition isShortOption :: "string \<Rightarrow> bool" where
  "isShortOption arg = HasPrefix arg ''-''"

definition isLongOption :: "string \<Rightarrow> bool" where
  "isLongOption arg = HasPrefix arg ''--''"

subsection \<open>The username resolver\<close>

text \<open>The \<^verbatim>\<open>for _, param := range params\<close> loop of \<^verbatim>\<open>searchConnectionStringForUsername\<close>.\<close>

fun paramsLoop :: "(string \<Rightarrow> string) \<Rightarrow> string list \<Rightarrow> string" where
  "paramsLoop trim [] = ''''"
| "paramsLoop trim (param # params) =
     (let kv = SplitN2 param in
      if length kv = 2 \<and> kv ! 0 = ''user'' then trim (kv ! 1)
      else paramsLoop trim params)"

definition searchConnectionStringForUsername :: "platform \<Rightarrow> string \<Rightarrow> string" where
  "searchConnectionStringForUsername os s = paramsLoop (TrimSpace os) (reSplit s)"

definition searchConnectionURIForUsername :: "platform \<Rightarrow> string \<Rightarrow> string \<times> event list" where
  "searchConnectionURIForUsername os uri =
     (case urlParseUsername os uri of
        Inl err \<Rightarrow> ('''', [Log (LogError (UrlParseError err))])
      | Inr u \<Rightarrow> (u, []))"

definition searchConnectionArgForUsername :: "platform \<Rightarrow> string \<Rightarrow> string \<times> event list" where
  "searchConnectionArgForUsername os arg =
     (if HasPrefix arg ''postgresql:'' then searchConnectionURIForUsername os arg
      else (searchConnectionStringForUsername os arg, []))"

fun searchPositionalArgsForUsername :: "platform \<Rightarrow> string list \<Rightarrow> string \<times> event list" where
  "searchPositionalArgsForUsername os [] = ('''', [])"
| "searchPositionalArgsForUsername os [a] = searchConnectionArgForUsername os a"
| "searchPositionalArgsForUsername os [a, b] = (b, [])"
| "searchPositionalArgsForUsername os args = ('''', [Log (TooManyPositional (length args))])"

text \<open>
  The \<^verbatim>\<open>for i := 0; i < len(args); i++\<close> loop of \<^verbatim>\<open>searchArgsForUsername\<close>, on the tokens
  from index \<open>i\<close> on: \<open>arg\<close> is \<^verbatim>\<open>args[i]\<close> and \<open>rest\<close> the tokens after it. Where the source
  runs \<^verbatim>\<open>i++; value = args[i]\<close> under \<^verbatim>\<open>i+1 < len(args)\<close>, the model takes the head of
  \<open>rest\<close> and goes on with its tail.
\<close>

fun scanArgs :: "string list \<Rightarrow> string \<Rightarrow> string list \<Rightarrow> string \<times> string list" where
  "scanArgs [] username positional = (username, positional)"
| "scanArgs (arg # rest) username positional =
     (if isLongOption arg then
        (if length arg \<le> 2 then scanArgs rest username positional
         else
           let kv = SplitN2 (drop 2 arg);
               longName = kv ! 0;
               next = (length kv < 2 \<and> longOptionsHavingArg longName \<and> rest \<noteq> []);
               val = (if length kv \<ge> 2 then kv ! 1 else if next then hd rest else '''')
           in scanArgs (if next then tl rest else rest)
                (if longName = ''username'' then val else username) positional)
      else if isShortOption arg then
        (if length arg \<le> 1 then scanArgs rest username positional
         else
           let shortName = arg ! 1;
               next = (\<not> length arg > 2 \<and> shortOptionsHavingArg shortName \<and> rest \<noteq> []);
               val = (if length arg > 2 then drop 2 arg else if next then hd rest else '''')
           in scanArgs (if next then tl rest else rest)
                (if shortName = CHR ''U'' then val else username) positional)
      else scanArgs rest username (positional @ [arg]))"

definition searchArgsForUsername :: "platform \<Rightarrow> string list \<Rightarrow> string \<times> event list" where
  "searchArgsForUsername os args =
     (let (username, positional) = scanArgs args '''' [];
          (found, evs) = searchPositionalArgsForUsername os positional
      in (if found \<noteq> '''' then found else username, evs))"

definition searchForUsername :: "platform \<Rightarrow> string list \<Rightarrow> string \<times> event list" where
  "searchForUsername os args =
     (let (username, evs) = searchArgsForUsername os args
      in (if username = '''' then Getenv os ''PGUSER'' else username, evs))"

subsection \<open>The launcher\<close>

definition getPasswordProvider :: "platform \<Rightarrow> wrapper \<Rightarrow> string" where
  "getPasswordProvider os w =
     (let provider = Getenv os ''PGW_PASSWORD_PROVIDER'' in
      if provider = '''' then
        (let p = filepathJoin os (filepathDir os (path w)) defaultPasswordProvider
         in if StatOk os p then p else provider)
      else provider)"

definition invokePasswordProvider ::
  "platform \<Rightarrow> string \<Rightarrow> string \<Rightarrow> (string \<times> go_error option) \<times> event list" where
  "invokePasswordProvider os provider username =
     ((case commandOutput os provider username of
         OutputNil stdout \<Rightarrow> (TrimRightNewline stdout, None)
       | OutputExitError err \<Rightarrow> ('''', Some (ProviderExited provider err))
       | OutputOtherError err \<Rightarrow> ('''', Some (ProviderInvokeFailed err))),
      [ProviderInvoked provider username])"

definition retrievePasswordForUser ::
  "platform \<Rightarrow> wrapper \<Rightarrow> string \<Rightarrow> (string \<times> go_error option) \<times> event list" where
  "retrievePasswordForUser os w username =
     (let provider = getPasswordProvider os w in
      if provider = '''' then (('''', Some ProviderUndefined), [])
      else invokePasswordProvider os provider username)"

definition buildEnv ::
  "platform \<Rightarrow> wrapper \<Rightarrow> string list \<Rightarrow> (string list \<times> go_error option) \<times> event list" where
  "buildEnv os w args =
     (let env = Environ os;
          (username, evs) = searchForUsername os args
      in if username = '''' then ((env, None), evs @ [Log CannotDetectUsername])
         else
           (let ((password, err), evs') = retrievePasswordForUser os w username in
            case err of
              Some e \<Rightarrow> ((env, Some e), evs @ evs')
            | None \<Rightarrow>
                if password \<noteq> ''''
                then ((env @ [''PGPASSWORD='' @ password], None), evs @ evs')
                else ((env, None), evs @ evs')))"

definition runCommand ::
  "platform \<Rightarrow> string \<Rightarrow> string list \<Rightarrow> string list \<Rightarrow> (int \<times> go_error option) \<times> event list" where
  "runCommand os command args env =
     ((case commandRun os command args env of
         RunNil \<Rightarrow> (0, None)
       | RunExitError code \<Rightarrow> (code, None)
       | RunOtherError err \<Rightarrow> (1, Some (OsError err))),
      [TargetRun command args env])"

definition launch :: "platform \<Rightarrow> wrapper \<Rightarrow> string \<Rightarrow> string list \<Rightarrow> int \<times> event list" where
  "launch os w command args =
     (let ((env, err), evs) = buildEnv os w args in
      case err of
        Some e \<Rightarrow> (1, evs @ [Log (LogError e)])
      | None \<Rightarrow>
          (let ((exitCode, err'), evs') = runCommand os command args env in
           case err' of
             Some e \<Rightarrow> (exitCode, evs @ evs' @ [Log (LogError e)])
           | None \<Rightarrow> (exitCode, evs @ evs')))"

text \<open>
  \<^verbatim>\<open>Launch\<close> reads \<^verbatim>\<open>args[0]\<close> and passes \<^verbatim>\<open>args[1:]\<close> on; on an empty slice the index
  expression panics, which is the value \<open>None\<close>.
\<close>

definition Launch :: "platform \<Rightarrow> string \<Rightarrow> string \<Rightarrow> string list \<Rightarrow> (int \<times> event list) option" where
  "Launch os nm command args =
     (case args of
        [] \<Rightarrow> None
      | a0 # as \<Rightarrow> Some (launch os \<lparr>name = nm, path = a0\<rparr> command as))"

text \<open>
  \<^verbatim>\<open>main\<close>: the exit code of the wrapper process, \<^verbatim>\<open>os.Exit(exitCode)\<close> when the code is
  not zero and the normal return (code 0) otherwise; \<open>None\<close> when \<^verbatim>\<open>Launch\<close> panics.
\<close>

definition main :: "platform \<Rightarrow> string list \<Rightarrow> (int \<times> event list) option" where
  "main os osArgs =
     (case Launch os ''psqlw'' ''psql'' osArgs of
        None \<Rightarrow> None
      | Some (exitCode, evs) \<Rightarrow> Some (if exitCode \<noteq> 0 then exitCode else 0, evs))"

subsection \<open>Vocabulary of the statements\<close>

text \<open>
  The predicates below are not part of the program; the theorems use them to speak about
  tokens. \<open>usernameOption arg\<close>: the scan treats \<open>arg\<close> as the username option (the test
  \<^verbatim>\<open>longName == "username"\<close> or \<^verbatim>\<open>shortName == 'U'\<close> is reached and true).
  \<open>takesNext arg\<close>: \<open>arg\<close> is an option without inline value whose table entry is true, so
  the scan takes the following token, when there is one, as its value. \<open>inlineValue arg\<close>:
  the value of an option that does not take the following token. \<open>pendingValue pre\<close>: the
  scan of \<open>pre\<close> ends on an option that would take a following token, so a token put
  after \<open>pre\<close> is read as that option's value; otherwise it is scanned on its own.
\<close>

definition usernameOption :: "string \<Rightarrow> bool" where
  "usernameOption arg =
     (if isLongOption arg then length arg > 2 \<and> SplitN2 (drop 2 arg) ! 0 = ''username''
      else isShortOption arg \<and> length arg > 1 \<and> arg ! 1 = CHR ''U'')"

definition takesNext :: "string \<Rightarrow> bool" where
  "takesNext arg =
     (if isLongOption arg
      then length arg > 2 \<and> length (SplitN2 (drop 2 arg)) < 2 \<and>
           longOptionsHavingArg (SplitN2 (drop 2 arg) ! 0)
      else isShortOption arg \<and> length arg = 2 \<and> shortOptionsHavingArg (arg ! 1))"

definition inlineValue :: "string \<Rightarrow> string" where
  "inlineValue arg =
     (if isLongOption arg
      then (if length arg > 2 \<and> length (SplitN2 (drop 2 arg)) \<ge> 2
            then SplitN2 (drop 2 arg) ! 1 else '''')
      else if length arg > 2 then drop 2 arg else '''')"

fun pendingValue :: "string list \<Rightarrow> bool" where
  "pendingValue [] = False"
| "pendingValue [arg] = takesNext arg"
| "pendingValue (arg # nxt # rest) =
     (if takesNext arg then pendingValue rest else pendingValue (nxt # rest))"

text \<open>A parameter of a connection string that the loop accepts as the \<^verbatim>\<open>user\<close> parameter.\<close>

definition userParam :: "string \<Rightarrow> bool" where
  "userParam param = (length (SplitN2 param) = 2 \<and> SplitN2 param ! 0 = ''user'')"

fun isTargetRun :: "event \<Rightarrow> bool" where
  "isTargetRun (TargetRun c a e) = True"
| "isTargetRun _ = False"

fun isProviderInvoked :: "event \<Rightarrow> bool" where
  "isProviderInvoked (ProviderInvoked p u) = True"
| "isProviderInvoked _ = False"

text \<open>
  What \<^verbatim>\<open>cmd.Run()\<close> returns for a child that ran and exited with status \<open>n\<close>: \<^verbatim>\<open>nil\<close>
  for status 0 and an \<^verbatim>\<open>*exec.ExitError\<close>, whose \<^verbatim>\<open>ExitCode()\<close> is \<open>n\<close>, otherwise.
\<close>

definition exitedWith :: "int \<Rightarrow> run_result" where
  "exitedWith n = (if n = 0 then RunNil else RunExitError n)"

subsection \<open>Platforms for the examples\<close>

text \<open>
  A platform with an empty \<^verbatim>\<open>PGUSER\<close>, no password provider, a URL parser that rejects
  everything, a provider that prints a space and a newline, and a target that exits with
  status 2; and the same platform with a provider configured.
\<close>

definition examplePlatform :: platform where
  "examplePlatform =
     \<lparr>Environ = [''HOME=/root'', ''PGPASSWORD=old''],
      Getenv = (\<lambda>k. ''''),
      StatOk = (\<lambda>p. False),
      filepathDir = (\<lambda>p. ''.''),
      filepathJoin = (\<lambda>d f. d @ ''/'' @ f),
      urlParseUsername = (\<lambda>u. Inl ''invalid''),
      TrimSpace = (\<lambda>s. s),
      commandOutput = (\<lambda>p u. OutputNil [CHR 0x20, CHR 0x0A]),
      commandRun = (\<lambda>c a e. RunExitError 2)\<rparr>"

definition providerPlatform :: platform where
  "providerPlatform =
     examplePlatform
       \<lparr>Getenv := (\<lambda>k. if k = ''PGW_PASSWORD_PROVIDER'' then ''/bin/provider'' else '''')\<rparr>"

definition secretPlatform :: platform where
  "secretPlatform =
     providerPlatform
       \<lparr>commandOutput := (\<lambda>p u. OutputNil (''secret word'' @ [CHR 0x0A, CHR 0x0A]))\<rparr>"

definition exampleWrapper :: wrapper where
  "exampleWrapper = \<lparr>name = ''psqlw'', path = ''/bin/psqlw''\<rparr>"

section \<open>Properties\<close>

subsection \<open>The option scan\<close>

lemma long_is_short: "isLongOption arg \<Longrightarrow> isShortOption arg"
  by (cases arg) (auto simp: isLongOption_def isShortOption_def HasPrefix_def)

lemma scanArgs_Cons:
  "scanArgs (arg # rest) u pos =
     (if \<not> isShortOption arg then scanArgs rest u (pos @ [arg])
      else if takesNext arg \<and> rest \<noteq> []
        then scanArgs (tl rest) (if usernameOption arg then hd rest else u) pos
      else scanArgs rest (if usernameOption arg then inlineValue arg else u) pos)"
proof (cases "isLongOption arg")
  case True
  then have s: "isShortOption arg" by (rule long_is_short)
  show ?thesis
    using True s
    by (auto simp: Let_def usernameOption_def takesNext_def inlineValue_def)
next
  case False
  show ?thesis
  proof (cases "isShortOption arg")
    case True
    with False show ?thesis
      by (auto simp: Let_def usernameOption_def takesNext_def inlineValue_def)
  next
    case n: False
    with False show ?thesis by simp
  qed
qed


declare scanArgs.simps(2) [simp del]

lemma scan_induct [case_names Nil Cons]:
  assumes "P []"
    and "\<And>arg rest. P rest \<Longrightarrow> (rest \<noteq> [] \<Longrightarrow> P (tl rest)) \<Longrightarrow> P (arg # rest)"
  shows "P args"
proof (induction args rule: length_induct)
  case (1 xs)
  show ?case
  proof (cases xs)
    case Nil
    then show ?thesis using assms(1) by simp
  next
    case (Cons a rest)
    have "P rest" using 1 Cons by simp
    moreover have "rest \<noteq> [] \<Longrightarrow> P (tl rest)" using 1 Cons by simp
    ultimately show ?thesis using assms(2) Cons by simp
  qed
qed

lemma scanArgs_fst_positional: "fst (scanArgs args u pos) = fst (scanArgs args u [])"
proof (induction args arbitrary: u pos rule: scan_induct)
  case Nil
  show ?case by simp
next
  case (Cons arg rest)
  show ?case
    using Cons.IH(1) [of _ "pos @ [arg]"] Cons.IH(1) [of _ "[arg]"] Cons.IH(1) [of _ pos]
      Cons.IH(2) [of _ pos]
    by (simp add: scanArgs_Cons)
qed

lemma scanArgs_snd_append: "snd (scanArgs args u pos) = pos @ snd (scanArgs args u' [])"
proof (induction args arbitrary: u u' pos rule: scan_induct)
  case Nil
  show ?case by simp
next
  case (Cons arg rest)
  have a: "snd (scanArgs rest u (pos @ [arg])) = pos @ snd (scanArgs rest u' [arg])"
    using Cons.IH(1) [of u "pos @ [arg]" u'] Cons.IH(1) [of u' "[arg]" u'] by simp
  have b: "\<And>x y. snd (scanArgs rest x pos) = pos @ snd (scanArgs rest y [])"
    by (rule Cons.IH(1))
  have c: "\<And>x y. rest \<noteq> [] \<Longrightarrow> snd (scanArgs (tl rest) x pos) = pos @ snd (scanArgs (tl rest) y [])"
    by (rule Cons.IH(2))
  show ?case
    using a b c by (simp add: scanArgs_Cons)
qed

lemma scanArgs_no_username_option:
  "\<forall>t\<in>set args. \<not> usernameOption t \<Longrightarrow> fst (scanArgs args u pos) = u"
proof (induction args arbitrary: u pos rule: scan_induct)
  case Nil
  show ?case by simp
next
  case (Cons arg rest)
  have t: "rest \<noteq> [] \<Longrightarrow> \<forall>t\<in>set (tl rest). \<not> usernameOption t"
    using Cons.prems by (cases rest) auto
  show ?case
    using Cons.prems Cons.IH(1) Cons.IH(2) t by (simp add: scanArgs_Cons)
qed

lemma takesNext_short: "takesNext arg \<Longrightarrow> isShortOption arg"
  by (auto simp: takesNext_def long_is_short split: if_splits)

lemma pendingValue_Cons:
  "pendingValue (arg # rest) =
     (if takesNext arg then rest = [] \<or> pendingValue (tl rest) else pendingValue rest)"
  by (cases rest) auto

lemma scanArgs_append:
  "\<not> pendingValue pre \<Longrightarrow>
   scanArgs (pre @ ys) u pos = scanArgs ys (fst (scanArgs pre u pos)) (snd (scanArgs pre u pos))"
proof (induction pre arbitrary: u pos rule: scan_induct)
  case Nil
  show ?case by simp
next
  case (Cons arg rest)
  show ?case
  proof (cases "takesNext arg")
    case True
    then have ne: "rest \<noteq> []" and np: "\<not> pendingValue (tl rest)"
      using Cons.prems by (auto simp: pendingValue_Cons)
    have r: "rest @ ys \<noteq> []" "tl (rest @ ys) = tl rest @ ys" "hd (rest @ ys) = hd rest"
      using ne by auto
    show ?thesis
      using True ne takesNext_short [OF True] Cons.IH(2) [OF ne np] r
      by (simp add: scanArgs_Cons)
  next
    case False
    then have np: "\<not> pendingValue rest"
      using Cons.prems by (simp add: pendingValue_Cons)
    show ?thesis
      using False Cons.IH(1) [OF np] by (simp add: scanArgs_Cons)
  qed
qed

lemma scanArgs_positional:
  "\<exists>ps. snd (scanArgs args u pos) = pos @ ps \<and> subseq ps args \<and> list_all (\<lambda>p. \<not> isShortOption p) ps"
proof (induction args arbitrary: u pos rule: scan_induct)
  case Nil
  show ?case by simp
next
  case (Cons arg rest)
  show ?case
  proof (cases "isShortOption arg")
    case False
    obtain ps where ps: "snd (scanArgs rest u (pos @ [arg])) = (pos @ [arg]) @ ps" "subseq ps rest"
      "list_all (\<lambda>p. \<not> isShortOption p) ps"
      using Cons.IH(1) by blast
    have "snd (scanArgs (arg # rest) u pos) = pos @ (arg # ps)"
      using False ps(1) by (simp add: scanArgs_Cons)
    moreover have "subseq (arg # ps) (arg # rest)" using ps(2) by simp
    moreover have "list_all (\<lambda>p. \<not> isShortOption p) (arg # ps)" using False ps(3) by simp
    ultimately show ?thesis by blast
  next
    case True
    show ?thesis
    proof (cases "takesNext arg \<and> rest \<noteq> []")
      case t: True
      let ?u = "if usernameOption arg then hd rest else u"
      obtain ps where ps: "snd (scanArgs (tl rest) ?u pos) = pos @ ps" "subseq ps (tl rest)"
        "list_all (\<lambda>p. \<not> isShortOption p) ps"
        using Cons.IH(2) t by blast
      have "snd (scanArgs (arg # rest) u pos) = pos @ ps"
        using True t ps(1) by (simp add: scanArgs_Cons)
      moreover have "subseq ps (arg # rest)"
        using ps(2) t by (cases rest) (auto intro: list_emb_Cons)
      ultimately show ?thesis using ps(3) by blast
    next
      case f: False
      let ?u = "if usernameOption arg then inlineValue arg else u"
      obtain ps where ps: "snd (scanArgs rest ?u pos) = pos @ ps" "subseq ps rest"
        "list_all (\<lambda>p. \<not> isShortOption p) ps"
        using Cons.IH(1) by blast
      have "snd (scanArgs (arg # rest) u pos) = pos @ ps"
        using True f ps(1) by (auto simp add: scanArgs_Cons)
      moreover have "subseq ps (arg # rest)" using ps(2) by (rule list_emb_Cons)
      ultimately show ?thesis using ps(3) by blast
    qed
  qed
qed


subsection \<open>Resolver and launcher, unfolded\<close>

lemma positional_events:
  "snd (searchPositionalArgsForUsername os pos) = [] \<or>
   (\<exists>l. snd (searchPositionalArgsForUsername os pos) = [Log l])"
  by (cases "(os, pos)" rule: searchPositionalArgsForUsername.cases)
     (auto simp: searchConnectionArgForUsername_def searchConnectionURIForUsername_def
           split: sum.splits)

lemma searchForUsername_events:
  "snd (searchForUsername os args) =
     snd (searchPositionalArgsForUsername os (snd (scanArgs args '''' [])))"
  by (simp add: searchForUsername_def searchArgsForUsername_def split_beta)

lemma resolver_events:
  "filter isTargetRun (snd (searchForUsername os args)) = [] \<and>
   filter isProviderInvoked (snd (searchForUsername os args)) = []"
  using positional_events [of os "snd (scanArgs args '''' [])"]
  by (auto simp: searchForUsername_events)

lemma searchForUsername_fst:
  "fst (searchForUsername os args) =
     (if fst (searchArgsForUsername os args) = '''' then Getenv os ''PGUSER''
      else fst (searchArgsForUsername os args))"
  by (simp add: searchForUsername_def split_beta)

lemma searchArgsForUsername_fst:
  "fst (searchArgsForUsername os args) =
     (if fst (searchPositionalArgsForUsername os (snd (scanArgs args '''' []))) \<noteq> ''''
      then fst (searchPositionalArgsForUsername os (snd (scanArgs args '''' [])))
      else fst (scanArgs args '''' []))"
  by (simp add: searchArgsForUsername_def split_beta)

lemma buildEnv_no_username:
  "fst (searchForUsername os args) = '''' \<Longrightarrow>
   buildEnv os w args =
     ((Environ os, None), snd (searchForUsername os args) @ [Log CannotDetectUsername])"
  by (simp add: buildEnv_def split_beta)

lemma buildEnv_username:
  "fst (searchForUsername os args) \<noteq> '''' \<Longrightarrow>
   buildEnv os w args =
     (let r = retrievePasswordForUser os w (fst (searchForUsername os args));
          evs = snd (searchForUsername os args) @ snd r
      in case snd (fst r) of
           Some e \<Rightarrow> ((Environ os, Some e), evs)
         | None \<Rightarrow>
             if fst (fst r) \<noteq> ''''
             then ((Environ os @ [''PGPASSWORD='' @ fst (fst r)], None), evs)
             else ((Environ os, None), evs))"
  by (simp add: buildEnv_def split_beta Let_def)

lemma launch_unfold:
  "launch os w command args =
     (case snd (fst (buildEnv os w args)) of
        Some e \<Rightarrow> (1, snd (buildEnv os w args) @ [Log (LogError e)])
      | None \<Rightarrow>
          (case commandRun os command args (fst (fst (buildEnv os w args))) of
             RunNil \<Rightarrow>
               (0, snd (buildEnv os w args) @
                   [TargetRun command args (fst (fst (buildEnv os w args)))])
           | RunExitError code \<Rightarrow>
               (code, snd (buildEnv os w args) @
                   [TargetRun command args (fst (fst (buildEnv os w args)))])
           | RunOtherError err \<Rightarrow>
               (1, snd (buildEnv os w args) @
                   [TargetRun command args (fst (fst (buildEnv os w args))),
                    Log (LogError (OsError err))])))"
  by (simp add: launch_def runCommand_def split_beta split: option.splits run_result.splits)

subsection \<open>Trimming trailing newlines\<close>

lemma TrimRightNewline_decompose:
  "s = TrimRightNewline s @ replicate (length (takeWhile (\<lambda>c. c = CHR 0x0A) (rev s))) (CHR 0x0A)"
proof -
  let ?P = "\<lambda>c. c = CHR 0x0A"
  have "rev (takeWhile ?P (rev s) @ dropWhile ?P (rev s)) = rev (rev s)"
    by (simp only: takeWhile_dropWhile_id)
  then have s: "s = rev (dropWhile ?P (rev s)) @ rev (takeWhile ?P (rev s))"
    by (simp only: rev_append rev_rev_ident)
  have "\<forall>y\<in>set (rev (takeWhile ?P (rev s))). y = CHR 0x0A"
    by (auto dest: set_takeWhileD)
  then have "replicate (length (rev (takeWhile ?P (rev s)))) (CHR 0x0A) = rev (takeWhile ?P (rev s))"
    by (rule replicate_length_same)
  then show ?thesis using s by (simp add: TrimRightNewline_def)
qed

lemma TrimRightNewline_last:
  "TrimRightNewline s \<noteq> '''' \<Longrightarrow> last (TrimRightNewline s) \<noteq> CHR 0x0A"
  using hd_dropWhile [of "\<lambda>c. c = CHR 0x0A" "rev s"]
  by (simp add: TrimRightNewline_def last_rev)

lemma TrimRightNewline_empty:
  "TrimRightNewline s = '''' \<longleftrightarrow> set s \<subseteq> {CHR 0x0A}"
  by (auto simp: TrimRightNewline_def dropWhile_eq_Nil_conv)

subsection \<open>Splitting parameters\<close>

lemma SplitN2_key_value: "CHR ''='' \<notin> set k \<Longrightarrow> SplitN2 (k @ CHR ''='' # v) = [k, v]"
proof -
  assume k: "CHR ''='' \<notin> set k"
  then have a: "\<forall>x\<in>set k. x \<noteq> CHR ''=''" by auto
  have t: "takeWhile (\<lambda>c. c \<noteq> CHR ''='') (k @ CHR ''='' # v) = k"
    using a by (simp add: takeWhile_tail)
  have d: "dropWhile (\<lambda>c. c \<noteq> CHR ''='') (k @ CHR ''='' # v) = CHR ''='' # v"
    using a by (simp add: dropWhile_append2)
  show ?thesis
    unfolding SplitN2_def t d by simp
qed

lemma paramsLoop_skip:
  "list_all (\<lambda>p. \<not> userParam p) pre \<Longrightarrow> paramsLoop trim (pre @ ps) = paramsLoop trim ps"
  by (induction pre) (auto simp: userParam_def Let_def)

subsection \<open>Username options\<close>



lemma long_username_inline:
  "isLongOption (''--username='' @ v)" "usernameOption (''--username='' @ v)"
  "\<not> takesNext (''--username='' @ v)" "inlineValue (''--username='' @ v) = v"
  using SplitN2_key_value [of "''username''" v]
  by (simp_all add: isLongOption_def HasPrefix_def usernameOption_def takesNext_def inlineValue_def)

lemma long_username_next:
  "isLongOption ''--username''" "usernameOption ''--username''" "takesNext ''--username''"
  by (simp_all add: isLongOption_def HasPrefix_def usernameOption_def takesNext_def SplitN2_def
        longOptionsHavingArg_def)

subsection \<open>Positional arguments\<close>

text \<open>
  C3. The positional tokens that the option scan collects are non-option tokens of the
  argument vector, in its order. With exactly two of them the positional-derived username
  is the second; with more than two a warning is logged, no positional-derived username is
  produced and the resolver goes on with the option-derived candidate; with none, no
  positional-derived username is produced.
\<close>

theorem positional_arguments_by_count:
  "let pos = snd (scanArgs args '''' []) in
     subseq pos args \<and> list_all (\<lambda>p. \<not> isShortOption p) pos \<and>
     (length pos = 0 \<longrightarrow> searchPositionalArgsForUsername os pos = ('''', [])) \<and>
     (length pos = 2 \<longrightarrow> searchPositionalArgsForUsername os pos = (pos ! 1, [])) \<and>
     (length pos > 2 \<longrightarrow>
        searchPositionalArgsForUsername os pos = ('''', [Log (TooManyPositional (length pos))]) \<and>
        searchArgsForUsername os args =
          (fst (scanArgs args '''' []), [Log (TooManyPositional (length pos))]))"
proof -
  define pos where "pos = snd (scanArgs args '''' [])"
  obtain ps where ps: "snd (scanArgs args '''' []) = [] @ ps" "subseq ps args"
    "list_all (\<lambda>p. \<not> isShortOption p) ps"
    using scanArgs_positional by blast
  have a: "subseq pos args" "list_all (\<lambda>p. \<not> isShortOption p) pos"
    using ps by (simp_all add: pos_def)
  have b: "length pos = 0 \<longrightarrow> searchPositionalArgsForUsername os pos = ('''', [])"
    by simp
  have c: "length pos = 2 \<longrightarrow> searchPositionalArgsForUsername os pos = (pos ! 1, [])"
  proof
    assume "length pos = 2"
    then obtain x y where "pos = [x, y]"
      by (cases pos; cases "tl pos") auto
    then show "searchPositionalArgsForUsername os pos = (pos ! 1, [])" by simp
  qed
  have d: "searchPositionalArgsForUsername os pos = ('''', [Log (TooManyPositional (length pos))])"
    if "length pos > 2"
  proof -
    from that obtain x y z zs where "pos = x # y # z # zs"
      by (cases pos; cases "tl pos"; cases "tl (tl pos)") auto
    then show ?thesis by simp
  qed
  have e: "searchArgsForUsername os args =
      (fst (scanArgs args '''' []), [Log (TooManyPositional (length pos))])"
    if "length pos > 2"
    using d [OF that] by (simp add: searchArgsForUsername_def pos_def split_beta)
  show ?thesis
    unfolding Let_def pos_def [symmetric] using a b c d e by blast
qed

theorem positional_arguments_by_count_witness:
  "snd (scanArgs [''-h'', ''db.local'', ''mydb'', ''erin''] '''' []) = [''mydb'', ''erin''] \<and>
   searchPositionalArgsForUsername examplePlatform [''mydb'', ''erin''] = (''erin'', []) \<and>
   snd (scanArgs [''a'', ''-p'', ''5432'', ''b'', ''c''] '''' []) = [''a'', ''b'', ''c''] \<and>
   searchArgsForUsername examplePlatform [''a'', ''-p'', ''5432'', ''b'', ''c''] =
     ('''', [Log (TooManyPositional 3)])"
  using positional_arguments_by_count [of "[''-h'', ''db.local'', ''mydb'', ''erin'']" examplePlatform]
    positional_arguments_by_count [of "[''a'', ''-p'', ''5432'', ''b'', ''c'']" examplePlatform]
  by code_simp

subsection \<open>The launcher\<close>

text \<open>
  C5. When the resolver yields a non-empty username, the variable
  \<^verbatim>\<open>PGW_PASSWORD_PROVIDER\<close> is empty and no file exists at the default provider path
  beside the wrapper, \<open>launch\<close> returns 1, its last action is logging the configuration
  error, the target command is never run and no provider is invoked.
\<close>

theorem no_provider_configured:
  assumes "fst (searchForUsername os args) \<noteq> ''''"
    and "Getenv os ''PGW_PASSWORD_PROVIDER'' = ''''"
    and "\<not> StatOk os (filepathJoin os (filepathDir os (path w)) defaultPasswordProvider)"
  shows "launch os w command args =
           (1, snd (searchForUsername os args) @ [Log (LogError ProviderUndefined)]) \<and>
         filter isTargetRun (snd (launch os w command args)) = [] \<and>
         filter isProviderInvoked (snd (launch os w command args)) = []"
proof -
  have p: "getPasswordProvider os w = ''''"
    using assms(2,3) by (simp add: getPasswordProvider_def)
  have r: "retrievePasswordForUser os w u = (('''', Some ProviderUndefined), [])" for u
    using p by (simp add: retrievePasswordForUser_def)
  have b: "buildEnv os w args =
      ((Environ os, Some ProviderUndefined), snd (searchForUsername os args))"
    using assms(1) r by (simp add: buildEnv_username)
  have l: "launch os w command args =
      (1, snd (searchForUsername os args) @ [Log (LogError ProviderUndefined)])"
    by (simp add: launch_unfold b)
  show ?thesis
    using resolver_events [of os args] by (simp add: l)
qed

theorem no_provider_configured_witness:
  "fst (searchForUsername examplePlatform [''-U'', ''alice'']) \<noteq> '''' \<and>
   Getenv examplePlatform ''PGW_PASSWORD_PROVIDER'' = '''' \<and>
   \<not> StatOk examplePlatform
       (filepathJoin examplePlatform (filepathDir examplePlatform (path exampleWrapper))
          defaultPasswordProvider) \<and>
   launch examplePlatform exampleWrapper ''psql'' [''-U'', ''alice''] =
     (1, [Log (LogError ProviderUndefined)])"
  using no_provider_configured [of examplePlatform "[''-U'', ''alice'']" exampleWrapper "''psql''"]
  by code_simp

text \<open>
  C6. Once the environment is built without error: if the child runs and exits with
  status \<open>n\<close>, zero or not, \<open>launch\<close> returns \<open>n\<close>; if the child cannot be started,
  \<open>launch\<close> returns 1 and its last action is logging the error. The exit code of the
  wrapper process is the result of \<open>launch\<close>.
\<close>

theorem exit_code_propagation:
  assumes "fst (buildEnv os w args) = (env, None)"
  shows "(commandRun os command args env = exitedWith n \<longrightarrow>
            fst (launch os w command args) = n) \<and>
         (commandRun os command args env = RunOtherError err \<longrightarrow>
            fst (launch os w command args) = 1 \<and>
            last (snd (launch os w command args)) = Log (LogError (OsError err))) \<and>
         map_option fst (main os (a0 # args)) =
           Some (fst (launch os \<lparr>name = ''psqlw'', path = a0\<rparr> ''psql'' args))"
proof -
  have a: "fst (launch os w command args) = n" if "commandRun os command args env = exitedWith n"
    using that assms by (simp add: launch_unfold exitedWith_def split: if_splits)
  have b: "fst (launch os w command args) = 1 \<and>
      last (snd (launch os w command args)) = Log (LogError (OsError err))"
    if "commandRun os command args env = RunOtherError err"
    using that assms by (simp add: launch_unfold)
  have c: "map_option fst (main os (a0 # args)) =
      Some (fst (launch os \<lparr>name = ''psqlw'', path = a0\<rparr> ''psql'' args))"
    by (simp add: main_def Launch_def split_beta)
  show ?thesis using a b c by blast
qed

theorem exit_code_propagation_witness:
  "fst (buildEnv examplePlatform \<lparr>name = ''psqlw'', path = ''/bin/psqlw''\<rparr> [''-l'']) =
     ([''HOME=/root'', ''PGPASSWORD=old''], None) \<and>
   commandRun examplePlatform ''psql'' [''-l''] [''HOME=/root'', ''PGPASSWORD=old''] = exitedWith 2 \<and>
   fst (launch examplePlatform \<lparr>name = ''psqlw'', path = ''/bin/psqlw''\<rparr> ''psql'' [''-l'']) = 2 \<and>
   map_option fst (main examplePlatform [''/bin/psqlw'', ''-l'']) = Some 2"
proof -
  have h: "fst (buildEnv examplePlatform \<lparr>name = ''psqlw'', path = ''/bin/psqlw''\<rparr> [''-l'']) =
     ([''HOME=/root'', ''PGPASSWORD=old''], None)"
    by code_simp
  have r: "commandRun examplePlatform ''psql'' [''-l''] [''HOME=/root'', ''PGPASSWORD=old''] = exitedWith 2"
    by (simp add: examplePlatform_def exitedWith_def)
  show ?thesis
    using h r exit_code_propagation [OF h, of "''psql''" 2 "''none''" "''/bin/psqlw''"]
    by auto
qed

text \<open>
  C7. When the argument vector yields no username and \<^verbatim>\<open>PGUSER\<close> is empty or unset, the
  resolver returns the empty username, the warning is logged, the environment is the
  unchanged copy of the process environment, no provider is invoked, and the target is
  run once, with that environment.
\<close>

theorem no_username_skips_provider:
  assumes "fst (searchArgsForUsername os args) = ''''"
    and "Getenv os ''PGUSER'' = ''''"
  shows "fst (searchForUsername os args) = '''' \<and>
         buildEnv os w args =
           ((Environ os, None), snd (searchForUsername os args) @ [Log CannotDetectUsername]) \<and>
         filter isProviderInvoked (snd (launch os w command args)) = [] \<and>
         filter isTargetRun (snd (launch os w command args)) =
           [TargetRun command args (Environ os)]"
proof -
  have u: "fst (searchForUsername os args) = ''''"
    using assms by (simp add: searchForUsername_fst)
  note b = buildEnv_no_username [OF u, of w]
  show ?thesis
    using u resolver_events [of os args]
    by (simp add: b launch_unfold split: run_result.splits)
qed

theorem no_username_skips_provider_witness:
  "fst (searchArgsForUsername providerPlatform [''-l'']) = '''' \<and>
   Getenv providerPlatform ''PGUSER'' = '''' \<and>
   launch providerPlatform exampleWrapper ''psql'' [''-l''] =
     (2, [Log CannotDetectUsername, TargetRun ''psql'' [''-l''] [''HOME=/root'', ''PGPASSWORD=old'']])"
proof -
  have c: "launch providerPlatform exampleWrapper ''psql'' [''-l''] =
     (2, [Log CannotDetectUsername, TargetRun ''psql'' [''-l''] [''HOME=/root'', ''PGPASSWORD=old'']])"
    by code_simp
  have h1: "fst (searchArgsForUsername providerPlatform [''-l'']) = ''''" by code_simp
  have h2: "Getenv providerPlatform ''PGUSER'' = ''''" by code_simp
  show ?thesis
    using no_username_skips_provider [OF h1 h2, of exampleWrapper "''psql''"] c h1 h2 by simp
qed

subsection \<open>The password provider's output\<close>

text \<open>
  C4, as amended. The output of the provider is used without its trailing newline
  characters and is otherwise unchanged: it is the trimmed string followed by newlines
  only, and the trimmed string does not end with a newline. The trimmed string is empty
  exactly when the output consists of newline characters only (or is empty); then no
  password variable is added. Any other output, spaces and tabs included, is added as
  trimmed.
\<close>

theorem provider_output_trimming:
  assumes "fst (searchForUsername os args) = username" and "username \<noteq> ''''"
    and "getPasswordProvider os w = provider" and "provider \<noteq> ''''"
    and "commandOutput os provider username = OutputNil out"
  shows "(\<exists>k. out = TrimRightNewline out @ replicate k (CHR 0x0A)) \<and>
         (TrimRightNewline out \<noteq> '''' \<longrightarrow> last (TrimRightNewline out) \<noteq> CHR 0x0A) \<and>
         (TrimRightNewline out = '''' \<longleftrightarrow> set out \<subseteq> {CHR 0x0A}) \<and>
         fst (buildEnv os w args) =
           (if set out \<subseteq> {CHR 0x0A} then Environ os
            else Environ os @ [''PGPASSWORD='' @ TrimRightNewline out], None)"
proof -
  have a: "\<exists>k. out = TrimRightNewline out @ replicate k (CHR 0x0A)"
    using TrimRightNewline_decompose [of out] by blast
  have r: "retrievePasswordForUser os w username =
      ((TrimRightNewline out, None), [ProviderInvoked provider username])"
    using assms(3,4,5) by (simp add: retrievePasswordForUser_def invokePasswordProvider_def)
  have b: "fst (buildEnv os w args) =
      (if set out \<subseteq> {CHR 0x0A} then Environ os
       else Environ os @ [''PGPASSWORD='' @ TrimRightNewline out], None)"
    using assms(1,2) r TrimRightNewline_empty [of out]
    by (simp add: buildEnv_username)
  show ?thesis
    using a b TrimRightNewline_last [of out] TrimRightNewline_empty [of out] by blast
qed

theorem provider_output_trimming_witness:
  "fst (searchForUsername secretPlatform [''-U'', ''alice'']) = ''alice'' \<and>
   getPasswordProvider secretPlatform exampleWrapper = ''/bin/provider'' \<and>
   commandOutput secretPlatform ''/bin/provider'' ''alice'' =
     OutputNil (''secret word'' @ [CHR 0x0A, CHR 0x0A]) \<and>
   TrimRightNewline (''secret word'' @ [CHR 0x0A, CHR 0x0A]) = ''secret word'' \<and>
   fst (buildEnv secretPlatform exampleWrapper [''-U'', ''alice'']) =
     ([''HOME=/root'', ''PGPASSWORD=old'', ''PGPASSWORD=secret word''], None)"
proof -
  have h1: "fst (searchForUsername secretPlatform [''-U'', ''alice'']) = ''alice''" by code_simp
  have h2: "''alice'' \<noteq> ''''" by simp
  have h3: "getPasswordProvider secretPlatform exampleWrapper = ''/bin/provider''" by code_simp
  have h4: "''/bin/provider'' \<noteq> ''''" by simp
  have h5: "commandOutput secretPlatform ''/bin/provider'' ''alice'' =
     OutputNil (''secret word'' @ [CHR 0x0A, CHR 0x0A])" by code_simp
  have t: "TrimRightNewline (''secret word'' @ [CHR 0x0A, CHR 0x0A]) = ''secret word''" by code_simp
  have e: "Environ secretPlatform = [''HOME=/root'', ''PGPASSWORD=old'']" by code_simp
  show ?thesis
    using provider_output_trimming [OF h1 h2 h3 h4 h5] h1 h3 h5 t e by simp
qed

text \<open>
  The claim as written fails: a provider that prints a space and a newline yields the
  password of one space, which is added to the environment.
\<close>

theorem whitespace_output_counterexample:
  "TrimRightNewline [CHR 0x20, CHR 0x0A] \<noteq> '''' \<and>
   fst (buildEnv providerPlatform exampleWrapper [''-U'', ''alice'']) =
     ([''HOME=/root'', ''PGPASSWORD=old'', ''PGPASSWORD= ''], None)"
  by code_simp

subsection \<open>The child environment\<close>

text \<open>
  C9. The environment that \<open>buildEnv\<close> returns is the process environment as
  \<^verbatim>\<open>os.Environ()\<close> gave it, entry by entry, with at most one entry
  \<^verbatim>\<open>PGPASSWORD=...\<close> after it. An entry for the same variable that was there before stays
  where it was. The functions of the model take the platform and return values and events
  only: the source calls nothing that changes the environment of the wrapper process.
\<close>

theorem buildEnv_appends_only:
  "fst (fst (buildEnv os w args)) = Environ os \<or>
   (\<exists>pw. fst (fst (buildEnv os w args)) = Environ os @ [''PGPASSWORD='' @ pw])"
proof (cases "fst (searchForUsername os args) = ''''")
  case True
  then show ?thesis by (simp add: buildEnv_no_username)
next
  case False
  then show ?thesis
    by (simp add: buildEnv_username Let_def split: option.splits)
qed

theorem buildEnv_appends_only_witness:
  "Environ secretPlatform = [''HOME=/root'', ''PGPASSWORD=old''] \<and>
   fst (fst (buildEnv secretPlatform exampleWrapper [''-U'', ''alice''])) =
     [''HOME=/root'', ''PGPASSWORD=old'', ''PGPASSWORD=secret word'']"
proof -
  have c: "fst (fst (buildEnv secretPlatform exampleWrapper [''-U'', ''alice''])) =
     [''HOME=/root'', ''PGPASSWORD=old'', ''PGPASSWORD=secret word'']" by code_simp
  have e: "Environ secretPlatform = [''HOME=/root'', ''PGPASSWORD=old'']" by code_simp
  show ?thesis
    using buildEnv_appends_only [of secretPlatform exampleWrapper "[''-U'', ''alice'']"] c e
    by simp
qed

subsection \<open>A connection URI that does not parse\<close>

text \<open>
  C8. When the only positional argument starts with \<^verbatim>\<open>postgresql:\<close> and
  \<^verbatim>\<open>url.Parse\<close> rejects it, the parse error is logged and the positional argument yields
  no username; the resolver still returns the option-derived candidate or else the value of
  \<^verbatim>\<open>PGUSER\<close>, and \<open>launch\<close> goes on after the logged error exactly as it does for that
  username: with the empty username it logs the warning and runs the target with the
  unchanged environment; with a username and no provider it logs the configuration error
  and returns 1; with a username and a provider it invokes the provider and, when the
  provider succeeds, runs the target with the environment built from its output.
\<close>

theorem malformed_uri_continues:
  assumes "snd (scanArgs args '''' []) = [arg]"
    and "HasPrefix arg ''postgresql:''"
    and "urlParseUsername os arg = Inl err"
  shows "let pe = Log (LogError (UrlParseError err));
             u = (if fst (scanArgs args '''' []) = '''' then Getenv os ''PGUSER''
                  else fst (scanArgs args '''' []));
             p = getPasswordProvider os w
         in searchPositionalArgsForUsername os [arg] = ('''', [pe]) \<and>
            searchForUsername os args = (u, [pe]) \<and>
            (\<exists>evs. evs \<noteq> [] \<and> snd (launch os w command args) = pe # evs) \<and>
            (u = '''' \<longrightarrow>
               filter isTargetRun (snd (launch os w command args)) =
                 [TargetRun command args (Environ os)] \<and>
               launch os w command args =
                 (case commandRun os command args (Environ os) of
                    RunNil \<Rightarrow>
                      (0, [pe, Log CannotDetectUsername, TargetRun command args (Environ os)])
                  | RunExitError code \<Rightarrow>
                      (code, [pe, Log CannotDetectUsername, TargetRun command args (Environ os)])
                  | RunOtherError e \<Rightarrow>
                      (1, [pe, Log CannotDetectUsername, TargetRun command args (Environ os),
                           Log (LogError (OsError e))]))) \<and>
            (u \<noteq> '''' \<and> p = '''' \<longrightarrow>
               launch os w command args = (1, [pe, Log (LogError ProviderUndefined)])) \<and>
            (u \<noteq> '''' \<and> p \<noteq> '''' \<longrightarrow>
               launch os w command args =
                 (case commandOutput os p u of
                    OutputNil out \<Rightarrow>
                      (let env = (if TrimRightNewline out \<noteq> ''''
                                  then Environ os @ [''PGPASSWORD='' @ TrimRightNewline out]
                                  else Environ os)
                       in case commandRun os command args env of
                            RunNil \<Rightarrow>
                              (0, [pe, ProviderInvoked p u, TargetRun command args env])
                          | RunExitError code \<Rightarrow>
                              (code, [pe, ProviderInvoked p u, TargetRun command args env])
                          | RunOtherError e \<Rightarrow>
                              (1, [pe, ProviderInvoked p u, TargetRun command args env,
                                   Log (LogError (OsError e))]))
                  | OutputExitError e \<Rightarrow>
                      (1, [pe, ProviderInvoked p u, Log (LogError (ProviderExited p e))])
                  | OutputOtherError e \<Rightarrow>
                      (1, [pe, ProviderInvoked p u, Log (LogError (ProviderInvokeFailed e))])))"
proof -
  define pe where "pe = Log (LogError (UrlParseError err))"
  define u where "u = (if fst (scanArgs args '''' []) = '''' then Getenv os ''PGUSER''
                  else fst (scanArgs args '''' []))"
  define p where "p = getPasswordProvider os w"
  have pos: "searchPositionalArgsForUsername os [arg] = ('''', [pe])"
    using assms(2,3)
    by (simp add: pe_def searchConnectionArgForUsername_def searchConnectionURIForUsername_def)
  have s: "searchForUsername os args = (u, [pe])"
    using pos assms(1)
    by (simp add: u_def searchForUsername_def searchArgsForUsername_def split_beta)
  have sf: "fst (searchForUsername os args) = u" and ss: "snd (searchForUsername os args) = [pe]"
    using s by simp_all
  have e: "launch os w command args =
      (case commandRun os command args (Environ os) of
         RunNil \<Rightarrow> (0, [pe, Log CannotDetectUsername, TargetRun command args (Environ os)])
       | RunExitError code \<Rightarrow>
           (code, [pe, Log CannotDetectUsername, TargetRun command args (Environ os)])
       | RunOtherError e \<Rightarrow>
           (1, [pe, Log CannotDetectUsername, TargetRun command args (Environ os),
                Log (LogError (OsError e))]))"
    if "u = ''''"
  proof -
    have "fst (searchForUsername os args) = ''''" using that sf by simp
    note b = buildEnv_no_username [OF this, of w]
    show ?thesis
      by (simp add: launch_unfold b ss split: run_result.splits)
  qed
  have t: "filter isTargetRun (snd (launch os w command args)) =
      [TargetRun command args (Environ os)]"
    if "u = ''''"
    by (simp add: e [OF that] pe_def split: run_result.splits)
  have n: "launch os w command args = (1, [pe, Log (LogError ProviderUndefined)])"
    if "u \<noteq> ''''" "p = ''''"
  proof -
    have f: "fst (searchForUsername os args) \<noteq> ''''" using that(1) sf by simp
    have r: "retrievePasswordForUser os w u = (('''', Some ProviderUndefined), [])"
      using that(2) by (simp add: retrievePasswordForUser_def p_def)
    show ?thesis
      by (simp add: launch_unfold buildEnv_username [OF f] sf ss r)
  qed
  have c: "launch os w command args =
      (case commandOutput os p u of
         OutputNil out \<Rightarrow>
           (let env = (if TrimRightNewline out \<noteq> ''''
                       then Environ os @ [''PGPASSWORD='' @ TrimRightNewline out]
                       else Environ os)
            in case commandRun os command args env of
                 RunNil \<Rightarrow> (0, [pe, ProviderInvoked p u, TargetRun command args env])
               | RunExitError code \<Rightarrow>
                   (code, [pe, ProviderInvoked p u, TargetRun command args env])
               | RunOtherError e \<Rightarrow>
                   (1, [pe, ProviderInvoked p u, TargetRun command args env,
                        Log (LogError (OsError e))]))
       | OutputExitError e \<Rightarrow>
           (1, [pe, ProviderInvoked p u, Log (LogError (ProviderExited p e))])
       | OutputOtherError e \<Rightarrow>
           (1, [pe, ProviderInvoked p u, Log (LogError (ProviderInvokeFailed e))]))"
    if "u \<noteq> ''''" "p \<noteq> ''''"
  proof -
    have f: "fst (searchForUsername os args) \<noteq> ''''" using that(1) sf by simp
    have r: "retrievePasswordForUser os w u = invokePasswordProvider os p u"
      using that(2) by (simp add: retrievePasswordForUser_def p_def)
    show ?thesis
      by (cases "commandOutput os p u")
         (simp_all add: launch_unfold buildEnv_username [OF f] sf ss r
            invokePasswordProvider_def Let_def split: run_result.splits)
  qed
  have x: "\<exists>evs. evs \<noteq> [] \<and> snd (launch os w command args) = pe # evs"
  proof (cases "u = ''''")
    case True
    show ?thesis by (simp add: e [OF True] split: run_result.splits)
  next
    case False
    show ?thesis
    proof (cases "p = ''''")
      case True
      show ?thesis by (simp add: n [OF False True])
    next
      case pn: False
      show ?thesis
        by (simp add: c [OF False pn] Let_def split: output_result.splits run_result.splits)
    qed
  qed
  show ?thesis
    unfolding Let_def pe_def [symmetric] u_def [symmetric] p_def [symmetric]
    using pos s x e t n c [unfolded Let_def] by blast
qed

theorem malformed_uri_continues_witness:
  "snd (scanArgs [''-h'', ''db.local'', ''postgresql://%zz''] '''' []) = [''postgresql://%zz''] \<and>
   HasPrefix ''postgresql://%zz'' ''postgresql:'' \<and>
   urlParseUsername examplePlatform ''postgresql://%zz'' = Inl ''invalid'' \<and>
   searchForUsername examplePlatform [''-h'', ''db.local'', ''postgresql://%zz''] =
     ('''', [Log (LogError (UrlParseError ''invalid''))]) \<and>
   launch examplePlatform exampleWrapper ''psql'' [''-h'', ''db.local'', ''postgresql://%zz''] =
     (2, [Log (LogError (UrlParseError ''invalid'')), Log CannotDetectUsername,
          TargetRun ''psql'' [''-h'', ''db.local'', ''postgresql://%zz'']
            [''HOME=/root'', ''PGPASSWORD=old'']]) \<and>
   launch providerPlatform exampleWrapper ''psql'' [''-U'', ''alice'', ''postgresql://%zz''] =
     (2, [Log (LogError (UrlParseError ''invalid'')), ProviderInvoked ''/bin/provider'' ''alice'',
          TargetRun ''psql'' [''-U'', ''alice'', ''postgresql://%zz'']
            [''HOME=/root'', ''PGPASSWORD=old'', ''PGPASSWORD= '']])"
proof -
  have h1: "snd (scanArgs [''-h'', ''db.local'', ''postgresql://%zz''] '''' []) = [''postgresql://%zz'']"
    by code_simp
  have h2: "HasPrefix ''postgresql://%zz'' ''postgresql:''" by code_simp
  have h3: "urlParseUsername examplePlatform ''postgresql://%zz'' = Inl ''invalid''" by code_simp
  have c: "searchForUsername examplePlatform [''-h'', ''db.local'', ''postgresql://%zz''] =
     ('''', [Log (LogError (UrlParseError ''invalid''))])" by code_simp
  have l: "launch examplePlatform exampleWrapper ''psql'' [''-h'', ''db.local'', ''postgresql://%zz''] =
     (2, [Log (LogError (UrlParseError ''invalid'')), Log CannotDetectUsername,
          TargetRun ''psql'' [''-h'', ''db.local'', ''postgresql://%zz'']
            [''HOME=/root'', ''PGPASSWORD=old'']])" by code_simp
  have g1: "snd (scanArgs [''-U'', ''alice'', ''postgresql://%zz''] '''' []) = [''postgresql://%zz'']"
    by code_simp
  have g3: "urlParseUsername providerPlatform ''postgresql://%zz'' = Inl ''invalid''" by code_simp
  have m: "launch providerPlatform exampleWrapper ''psql'' [''-U'', ''alice'', ''postgresql://%zz''] =
     (2, [Log (LogError (UrlParseError ''invalid'')), ProviderInvoked ''/bin/provider'' ''alice'',
          TargetRun ''psql'' [''-U'', ''alice'', ''postgresql://%zz'']
            [''HOME=/root'', ''PGPASSWORD=old'', ''PGPASSWORD= '']])" by code_simp
  show ?thesis
    using malformed_uri_continues [OF h1 h2 h3, of exampleWrapper "''psql''"]
      malformed_uri_continues [OF g1 h2 g3, of exampleWrapper "''psql''"] h1 h2 h3 c l m
    by simp
qed

subsection \<open>Connection strings\<close>

text \<open>
  C10. The parameters of a keyword/value connection string are the whitespace-split
  tokens, taken from left to right: when the token \<^verbatim>\<open>user=v\<close> is preceded by no token
  that the loop accepts as a \<^verbatim>\<open>user\<close> parameter, the result is \<open>v\<close> (after
  \<^verbatim>\<open>strings.TrimSpace\<close>), whatever follows, a later \<^verbatim>\<open>user\<close> parameter included.
\<close>

theorem first_user_parameter_wins:
  assumes "reSplit s = pre @ (''user='' @ v) # post"
    and "list_all (\<lambda>p. \<not> userParam p) pre"
  shows "searchConnectionStringForUsername os s = TrimSpace os v \<and>
         (\<not> HasPrefix s ''postgresql:'' \<longrightarrow>
            searchPositionalArgsForUsername os [s] = (TrimSpace os v, []))"
proof -
  have kv: "SplitN2 (''user='' @ v) = [''user'', v]"
    using SplitN2_key_value [of "''user''" v] by simp
  have "paramsLoop (TrimSpace os) (reSplit s) =
      paramsLoop (TrimSpace os) ((''user='' @ v) # post)"
    unfolding assms(1) using assms(2) by (rule paramsLoop_skip)
  also have "\<dots> = TrimSpace os v"
    using kv by (simp add: Let_def del: append.simps)
  finally have a: "searchConnectionStringForUsername os s = TrimSpace os v"
    by (simp add: searchConnectionStringForUsername_def)
  then show ?thesis
    by (simp add: searchConnectionArgForUsername_def)
qed

theorem first_user_parameter_wins_witness:
  "reSplit ''dbname=foo user=dave host=x user=eve'' =
     [''dbname=foo''] @ (''user='' @ ''dave'') # [''host=x'', ''user=eve''] \<and>
   list_all (\<lambda>p. \<not> userParam p) [''dbname=foo''] \<and>
   \<not> HasPrefix ''dbname=foo user=dave host=x user=eve'' ''postgresql:'' \<and>
   searchPositionalArgsForUsername examplePlatform [''dbname=foo user=dave host=x user=eve''] =
     (''dave'', [])"
proof -
  have h1: "reSplit ''dbname=foo user=dave host=x user=eve'' =
     [''dbname=foo''] @ (''user='' @ ''dave'') # [''host=x'', ''user=eve'']"
    by code_simp
  have h2: "list_all (\<lambda>p. \<not> userParam p) [''dbname=foo'']" by code_simp
  have h3: "\<not> HasPrefix ''dbname=foo user=dave host=x user=eve'' ''postgresql:''" by code_simp
  have t: "TrimSpace examplePlatform ''dave'' = ''dave''" by code_simp
  show ?thesis
    using first_user_parameter_wins [OF h1 h2, of examplePlatform] h1 h2 h3 t by simp
qed

subsection \<open>Precedence of the username sources\<close>




text \<open>
  C2, as amended. When the long username option with an explicit value \<open>v\<close>, inline or as
  the following token, is scanned as an option (the tokens before it do not end on an
  option that takes it as its value), no token after it is a username option, and the
  positional arguments yield no username, the resolver returns \<open>v\<close>, or the value of
  \<^verbatim>\<open>PGUSER\<close> when \<open>v\<close> is empty.
\<close>

theorem long_username_option_value:
  assumes "\<not> pendingValue pre"
    and "args = pre @ (''--username='' @ v) # rest \<or> args = pre @ ''--username'' # v # rest"
    and "list_all (\<lambda>t. \<not> usernameOption t) rest"
    and "fst (searchPositionalArgsForUsername os (snd (scanArgs args '''' []))) = ''''"
  shows "fst (searchForUsername os args) = (if v = '''' then Getenv os ''PGUSER'' else v)"
proof -
  have n: "fst (scanArgs rest v pos) = v" for pos
    using assms(3) by (simp add: scanArgs_no_username_option list_all_iff)
  have "fst (scanArgs args '''' []) = v"
  proof -
    from assms(2) show ?thesis
    proof
      assume a: "args = pre @ (''--username='' @ v) # rest"
      show ?thesis
        unfolding a scanArgs_append [OF assms(1)]
        using long_username_inline [of v] long_is_short [of "''--username='' @ v"] n
        by (simp add: scanArgs_Cons del: append.simps)
    next
      assume a: "args = pre @ ''--username'' # v # rest"
      show ?thesis
        unfolding a scanArgs_append [OF assms(1)]
        using long_username_next long_is_short [of "''--username''"] n
        by (simp add: scanArgs_Cons)
    qed
  qed
  then show ?thesis
    using assms(4) by (simp add: searchForUsername_fst searchArgsForUsername_fst)
qed

theorem long_username_option_value_witness:
  "\<not> pendingValue [''-h'', ''db.local''] \<and>
   list_all (\<lambda>t. \<not> usernameOption t) [''-p'', ''5432''] \<and>
   fst (searchPositionalArgsForUsername examplePlatform
     (snd (scanArgs ([''-h'', ''db.local''] @ ''--username'' # ''alice'' # [''-p'', ''5432'']) '''' []))) = '''' \<and>
   fst (searchForUsername examplePlatform
     ([''-h'', ''db.local''] @ ''--username'' # ''alice'' # [''-p'', ''5432''])) = ''alice''"
proof -
  have h1: "\<not> pendingValue [''-h'', ''db.local'']" by code_simp
  have h2: "[''-h'', ''db.local''] @ ''--username'' # ''alice'' # [''-p'', ''5432''] =
      [''-h'', ''db.local''] @ (''--username='' @ ''alice'') # [''-p'', ''5432''] \<or>
    [''-h'', ''db.local''] @ ''--username'' # ''alice'' # [''-p'', ''5432''] =
      [''-h'', ''db.local''] @ ''--username'' # ''alice'' # [''-p'', ''5432'']" by simp
  have h3: "list_all (\<lambda>t. \<not> usernameOption t) [''-p'', ''5432'']" by code_simp
  have h4: "fst (searchPositionalArgsForUsername examplePlatform
     (snd (scanArgs ([''-h'', ''db.local''] @ ''--username'' # ''alice'' # [''-p'', ''5432'']) '''' []))) = ''''"
    by code_simp
  show ?thesis
    using long_username_option_value [OF h1 h2 h3 h4] h1 h3 h4 by simp
qed

text \<open>
  The claim as written fails: a later \<^verbatim>\<open>-Ubob\<close> replaces the value of \<^verbatim>\<open>--username=alice\<close>,
  and two positional arguments replace the value of \<^verbatim>\<open>--username alice\<close>.
\<close>

theorem long_username_option_counterexample:
  "fst (searchForUsername examplePlatform [''--username=alice'', ''-Ubob'']) = ''bob'' \<and>
   fst (searchForUsername examplePlatform [''--username'', ''alice'', ''mydb'', ''erin'']) = ''erin''"
  by code_simp

end
